theory Spec2Isabelle
  imports Main "HOL-Library.AList" "HOL-Library.Sublist"
begin

section \<open>Errors and library collaborators\<close>

text \<open>
  Values a JavaScript \<open>throw\<close> (or a rejected promise) can carry in this code base.
  \<open>ZodError\<close> is the exception class of the validation library; the routing and
  registry code tells it apart from every other error with \<open>instanceof\<close>.
\<close>

datatype js_error = Error string | TypeError string | ZodError string

text \<open>
  The validation library is not part of the repository. A schema is a value of an
  arbitrary type \<open>'s\<close>; the library's \<open>safeParse\<close> is a parameter of every function
  that validates: \<open>Inl msg\<close> is a failed validation with the message of its
  \<open>ZodError\<close>, \<open>Inr v\<close> a successful one with the parsed data.
\<close>

type_synonym ('s, 'a) safe_parse = "'s \<Rightarrow> 'a \<Rightarrow> string + 'a"

definition success :: "string + 'a \<Rightarrow> bool" where
  "success validation = (case validation of Inl _ \<Rightarrow> False | Inr _ \<Rightarrow> True)"

section \<open>Data model of the agent service (agent-state.ts)\<close>

record 's AgentToolDefinition =
  name :: string
  description :: string
  schema :: 's

text \<open>A tool invocation requested by the model; \<open>id\<close> and \<open>type\<close> are optional.\<close>

record 'a ToolCall =
  tc_name :: string
  tc_args :: 'a
  tc_id :: "string option"
  tc_type :: "string option"

text \<open>The message contract's directives that the agent service builds (api-contract.ts).\<close>

record 'a ToolCallMessage =
  tcm_type :: string
  tcm_name :: string
  tcm_params :: 'a
  tcm_tool_call_id :: "string option"

record 's RenderHtmlMessage =
  rh_type :: string
  rh_html :: "string option"
  rh_component_id :: string
  rh_message :: string
  rh_schema :: 's
  rh_toolName :: string

text \<open>
  The content of a model message is a string. \<open>JSON.stringify\<close> of a render directive
  is kept symbolic, so that the fields of the serialised directive stay readable.
\<close>

datatype 's message_content = Text string | JSON_stringify "'s RenderHtmlMessage"

text \<open>
  An \<open>AIMessage\<close> is represented by the fields handed to its constructor; a field the
  caller did not pass is \<open>None\<close>.
\<close>

record ('a, 's) AIMessageFields =
  content :: "'s message_content"
  tool_calls :: "'a ToolCall list option"
  additional_kwargs :: "(string \<times> string) list option"

datatype ('a, 's) BaseMessage =
    AIMessage "('a, 's) AIMessageFields"
  | HumanMessage string
  | SystemMessage string
  | ToolMessage string string

text \<open>
  \<open>tool_definitions\<close> is a \<open>Record<string, AgentToolDefinition>\<close>: the field holds
  the entries of the object itself, a finite map from the names to the definitions.
  What the object inherits from its prototype is added where the code reads
  \<open>tool_definitions[key]\<close> (\<open>property_of\<close> below).
\<close>

record ('a, 's) AgentState =
  messages :: "('a, 's) BaseMessage list"
  tool_definitions :: "string \<rightharpoonup> 's AgentToolDefinition"
  requires_user_input :: bool
  pending_tool_name :: "string option"

text \<open>
  \<open>Partial<AgentState>\<close>, the value a graph node returns: every key is optional.
\<close>

record ('a, 's) PartialAgentState =
  upd_messages :: "('a, 's) BaseMessage list option"
  upd_tool_definitions :: "(string \<rightharpoonup> 's AgentToolDefinition) option"
  upd_requires_user_input :: "bool option"
  upd_pending_tool_name :: "string option option"

text \<open>
  The reducers of \<open>Annotation.Root\<close>: messages are concatenated, tool definitions are
  merged with the update winning, the two scalar fields are replaced. A key that the
  node did not return is left alone.
\<close>

definition applyUpdate ::
  "('a, 's) AgentState \<Rightarrow> ('a, 's) PartialAgentState \<Rightarrow> ('a, 's) AgentState" where
  "applyUpdate state upd =
     \<lparr> messages = (case upd_messages upd of None \<Rightarrow> messages state
                    | Some y \<Rightarrow> messages state @ y),
       tool_definitions = (case upd_tool_definitions upd of None \<Rightarrow> tool_definitions state
                    | Some y \<Rightarrow> tool_definitions state ++ y),
       requires_user_input = (case upd_requires_user_input upd of
                      None \<Rightarrow> requires_user_input state | Some y \<Rightarrow> y),
       pending_tool_name = (case upd_pending_tool_name upd of
                      None \<Rightarrow> pending_tool_name state | Some y \<Rightarrow> y) \<rparr>"

text \<open>
  \<open>state.messages[state.messages.length - 1]\<close>: the last message, \<open>undefined\<close>
  (here \<open>None\<close>) on an empty history.
\<close>

definition lastMessage :: "('a, 's) AgentState \<Rightarrow> ('a, 's) BaseMessage option" where
  "lastMessage state =
     (if messages state = [] then None else Some (last (messages state)))"

section \<open>The routing function\<close>

datatype route = tool_executor | human_in_the_loop | end_route

text \<open>
  \<open>shouldContinue\<close> assigns to two fields of the state it is given; the model returns
  the route together with the state after the call. The route \<open>'__end__'\<close> is
  \<open>end_route\<close>.
\<close>

definition shouldContinue ::
  "('s, 'a) safe_parse \<Rightarrow> ('a, 's) AgentState \<Rightarrow> route \<times> ('a, 's) AgentState" where
  "shouldContinue safeParse state =
     (case lastMessage state of
        Some (AIMessage m) \<Rightarrow>
          (case tool_calls m of
             Some (toolCall # _) \<Rightarrow>
               (case tool_definitions state (tc_name toolCall) of
                  None \<Rightarrow> (end_route, state)
                | Some tool \<Rightarrow>
                    let validation = safeParse (schema tool) (tc_args toolCall)
                    in if \<not> success validation
                       then (human_in_the_loop,
                             state\<lparr> requires_user_input := True,
                                    pending_tool_name := Some (tc_name toolCall) \<rparr>)
                       else (tool_executor,
                             state\<lparr> requires_user_input := False,
                                    pending_tool_name := None \<rparr>))
           | _ \<Rightarrow> (end_route, state))
      | _ \<Rightarrow> (end_route, state))"

text \<open>
  In \<open>shouldContinue\<close> the test \<open>!toolSchema\<close> is on
  \<open>state.tool_definitions[toolCall.name]?.schema\<close>: it holds exactly when the name
  has no entry of its own, since the schema of an entry is an object and a member
  inherited from \<open>Object.prototype\<close> has no \<open>schema\<close>. An empty \<open>tool_calls\<close>
  array and a missing one both skip the branch.
\<close>

section \<open>The graph nodes\<close>

subsection \<open>tool\_executor\<close>

text \<open>
  The node throws on a last message that is no \<open>AIMessage\<close> or has no
  \<open>tool_calls\<close>. An empty array passes that test (it is truthy); reading
  \<open>toolCall.name\<close> of its missing first element is then a \<open>TypeError\<close>. The
  \<open>ToolCallMessage\<close> the code builds is never used: the node returns a new
  \<open>AIMessage\<close> whose only tool call is the spread of the first one with
  \<open>type: 'tool_call'\<close>.
\<close>

definition toolExecutorNode ::
  "('a, 's) AgentState \<Rightarrow> js_error + ('a, 's) PartialAgentState" where
  "toolExecutorNode state =
     (case lastMessage state of
        Some (AIMessage m) \<Rightarrow>
          (case tool_calls m of
             None \<Rightarrow> Inl (Error ''Invalid state: Expected an AIMessage with tool_calls.'')
           | Some [] \<Rightarrow> Inl (TypeError ''Cannot read properties of undefined'')
           | Some (toolCall # _) \<Rightarrow>
               let toolCallMessage =
                     \<lparr> tcm_type = ''tool_call'', tcm_name = tc_name toolCall,
                       tcm_params = tc_args toolCall, tcm_tool_call_id = tc_id toolCall \<rparr>;
                   customToolCallMessage =
                     AIMessage \<lparr> content = Text [],
                       tool_calls = Some [toolCall\<lparr> tc_type := Some ''tool_call'' \<rparr>],
                       additional_kwargs = None \<rparr>
               in Inr \<lparr> upd_messages = Some [customToolCallMessage],
                        upd_tool_definitions = None,
                        upd_requires_user_input = None,
                        upd_pending_tool_name = None \<rparr>)
      | _ \<Rightarrow> Inl (Error ''Invalid state: Expected an AIMessage with tool_calls.''))"

subsection \<open>human\_in\_the\_loop\<close>

text \<open>
  The node reads \<open>tool_definitions[pending_tool_name]\<close>. The object is a plain one
  (the reducer builds it with a spread), so a key that is no entry of its own is looked
  up in \<open>Object.prototype\<close>. The members found there are functions, except
  \<open>__proto__\<close>, which yields the prototype object; all of them are truthy, none has a
  \<open>schema\<close> or a \<open>description\<close>, and a function has its \<open>name\<close>. The table gives,
  for each inherited key, the \<open>name\<close> of the member.
\<close>

definition Object_prototype :: "(string \<times> string option) list" where
  "Object_prototype =
     [(''constructor'', Some ''Object''),
      (''__defineGetter__'', Some ''__defineGetter__''),
      (''__defineSetter__'', Some ''__defineSetter__''),
      (''hasOwnProperty'', Some ''hasOwnProperty''),
      (''__lookupGetter__'', Some ''__lookupGetter__''),
      (''__lookupSetter__'', Some ''__lookupSetter__''),
      (''isPrototypeOf'', Some ''isPrototypeOf''),
      (''propertyIsEnumerable'', Some ''propertyIsEnumerable''),
      (''toString'', Some ''toString''),
      (''valueOf'', Some ''valueOf''),
      (''__proto__'', None),
      (''toLocaleString'', Some ''toLocaleString'')]"

datatype 's property = Own "'s AgentToolDefinition" | Inherited "string option"

text \<open>\<open>record[key]\<close>; \<open>None\<close> is \<open>undefined\<close>.\<close>

definition property_of ::
  "(string \<rightharpoonup> 's AgentToolDefinition) \<Rightarrow> string \<Rightarrow> 's property option" where
  "property_of record key =
     (case record key of
        Some entry \<Rightarrow> Some (Own entry)
      | None \<Rightarrow> map_option Inherited (map_of Object_prototype key))"

text \<open>\<open>tool.schema\<close> and \<open>tool.name\<close> of what the lookup found.\<close>

fun schema_of :: "'s property \<Rightarrow> 's option" where
  "schema_of (Own entry) = Some (schema entry)"
| "schema_of (Inherited member_name) = None"

fun name_of :: "'s property \<Rightarrow> string option" where
  "name_of (Own entry) = Some (name entry)"
| "name_of (Inherited member_name) = member_name"

text \<open>
  The rendering collaborator is reached through one HTTP POST. The request, the
  response and the call itself are explicit: the node returns what it returns or
  throws (\<open>Inl\<close>) together with the list of the effects it had, in order. The body of
  a response may be missing, and so may its \<open>html\<close>.
\<close>

record 'j render_request =
  component :: string
  rq_schema :: 'j
  rq_toolName :: "string option"

record response_data =
  html :: "string option"

record axios_response =
  data :: "response_data option"

datatype 'j effect =
    HttpPost string "'j render_request"
  | ConsoleError string js_error

definition UI_RENDERING_SERVICE_URL :: string where
  "UI_RENDERING_SERVICE_URL = ''http://localhost:4000/render''"

text \<open>
  \<open>String.prototype.toLowerCase\<close>, on the ASCII letters: a string here is a list of
  bytes, and the letters outside ASCII are left as they are. No proof below looks into
  this definition.
\<close>

definition toLowerCase_char :: "char \<Rightarrow> char" where
  "toLowerCase_char c =
     (let n = (of_char c :: nat)
      in if 65 \<le> n \<and> n \<le> 90 then char_of (n + 32) else c)"

definition toLowerCase :: "string \<Rightarrow> string" where
  "toLowerCase s = map toLowerCase_char s"

definition apology :: string where
  "apology = ''Sorry, I'' @ [CHR 0x27] @
     ''m having trouble generating the form right now. Please try again in a moment.''"

text \<open>
  \<open>!pending_tool_name\<close> holds for \<open>undefined\<close> and for the empty string; \<open>!tool\<close>
  holds only when the lookup found nothing. The parameters are the library's
  \<open>zodToJsonSchema\<close>, applied to \<open>tool.schema\<close>, which may be undefined and which the
  library may reject, and the HTTP client's \<open>post\<close>, whose rejected promise is
  \<open>Inl\<close>. Everything thrown inside the \<open>try\<close> block goes to \<open>caught\<close>: a
  failure of \<open>zodToJsonSchema\<close>, a failure of the call, and the \<open>TypeError\<close> of reading
  \<open>html\<close> from a missing body. Reading \<open>tool.description.toLowerCase()\<close> comes after
  the block; for an inherited member, which has no description, its \<open>TypeError\<close> is
  thrown by the node.
\<close>

definition humanInTheLoopNode ::
  "('s option \<Rightarrow> js_error + 'j) \<Rightarrow>
   (string \<Rightarrow> 'j render_request \<Rightarrow> js_error + axios_response) \<Rightarrow>
   ('a, 's) AgentState \<Rightarrow> (js_error + ('a, 's) PartialAgentState) \<times> 'j effect list" where
  "humanInTheLoopNode zodToJsonSchema axios_post state =
     (case pending_tool_name state of
        None \<Rightarrow> (Inl (Error ''Invalid state: pending_tool_name is not set.''), [])
      | Some pending \<Rightarrow>
          if pending = []
          then (Inl (Error ''Invalid state: pending_tool_name is not set.''), [])
          else
            (case property_of (tool_definitions state) pending of
               None \<Rightarrow> (Inl (Error (''Tool '' @ pending @ '' not found.'')), [])
             | Some tool \<Rightarrow>
                 let caught = (\<lambda>error effects.
                       let errorMessage =
                             AIMessage \<lparr> content = Text apology,
                               tool_calls = None, additional_kwargs = None \<rparr>
                       in (Inr \<lparr> upd_messages = Some [errorMessage],
                                 upd_tool_definitions = None,
                                 upd_requires_user_input = None,
                                 upd_pending_tool_name = None \<rparr>,
                           effects @
                           [ConsoleError
                              ''Failed to render component via rendering service:'' error]))
                 in (case zodToJsonSchema (schema_of tool) of
                       Inl error \<Rightarrow> caught error []
                     | Inr json_schema \<Rightarrow>
                         let request = \<lparr> component = ''agentic-dynamic-form'',
                                         rq_schema = json_schema,
                                         rq_toolName = name_of tool \<rparr>;
                             posted = [HttpPost UI_RENDERING_SERVICE_URL request]
                         in (case axios_post UI_RENDERING_SERVICE_URL request of
                               Inl error \<Rightarrow> caught error posted
                             | Inr response \<Rightarrow>
                                 (case data response of
                                    None \<Rightarrow>
                                      caught (TypeError ''Cannot read properties of undefined'')
                                        posted
                                  | Some body \<Rightarrow>
                                      let componentHtml = html body
                                      in (case tool of
                                            Inherited member_name \<Rightarrow>
                                              (Inl (TypeError
                                                 ''Cannot read properties of undefined''),
                                               posted)
                                          | Own entry \<Rightarrow>
                                              let renderMessage =
                                                    \<lparr> rh_type = ''render_html'',
                                                      rh_html = componentHtml,
                                                      rh_component_id = ''dynamic-form'',
                                                      rh_message =
                                                        ''I need some more information to '' @
                                                        toLowerCase (description entry) @ ''.'',
                                                      rh_schema = schema entry,
                                                      rh_toolName = name entry \<rparr>;
                                                  customRenderMessage =
                                                    AIMessage
                                                      \<lparr> content = JSON_stringify renderMessage,
                                                        tool_calls = None,
                                                        additional_kwargs =
                                                          Some [(''type'',
                                                                 ''agentic_ui_render_html'')] \<rparr>
                                              in (Inr \<lparr> upd_messages =
                                                          Some [customRenderMessage],
                                                        upd_tool_definitions = None,
                                                        upd_requires_user_input = None,
                                                        upd_pending_tool_name = None \<rparr>,
                                                  posted)))))))"

section \<open>The client-side tool registry (tool-registry.ts)\<close>

text \<open>
  A registered tool has the three fields the agent sees, the function to run and the
  permission list. The function is asynchronous: a rejected promise is \<open>Inl\<close>.
\<close>

record ('s, 'p, 'r) ToolDefinition = "'s AgentToolDefinition" +
  toolFn :: "'p \<Rightarrow> js_error + 'r"
  permissions :: "string list"

text \<open>
  The private \<open>Map\<close> of the service keeps insertion order, and \<open>set\<close> on a key it
  already has replaces the value where it stands: an association list updated with
  \<open>AList.update\<close>.
\<close>

type_synonym ('s, 'p, 'r) registry = "(string \<times> ('s, 'p, 'r) ToolDefinition) list"

datatype 'p registry_effect =
    console_warn string
  | console_log string 'p
  | console_error string js_error
  | toolFn_called string 'p

text \<open>
  \<open>schema.description || 'No description provided.'\<close>: the default stands in for a
  missing description and for an empty one. The library's \<open>description\<close> getter is the
  first parameter.
\<close>

definition registerTool ::
  "('s \<Rightarrow> string option) \<Rightarrow> string \<Rightarrow> ('p \<Rightarrow> js_error + 'r) \<Rightarrow> 's \<Rightarrow> string list \<Rightarrow>
   ('s, 'p, 'r) registry \<Rightarrow> ('s, 'p, 'r) registry \<times> 'p registry_effect list" where
  "registerTool schema_description nm fn sch perms tools =
     (let warned = (if nm \<in> fst ` set tools
                    then [console_warn (''Tool with name \"'' @ nm @
                                        ''\" is already registered. Overwriting.'')]
                    else []);
          descr = (case schema_description sch of
                     None \<Rightarrow> ''No description provided.''
                   | Some d \<Rightarrow> if d = [] then ''No description provided.'' else d)
      in (AList.update nm
            \<lparr> name = nm, description = descr, schema = sch,
              toolFn = fn, permissions = perms \<rparr> tools,
          warned))"

text \<open>The registry after a sequence of registrations, starting from the empty map.\<close>

fun registerAll ::
  "('s \<Rightarrow> string option) \<Rightarrow> (string \<times> ('p \<Rightarrow> js_error + 'r) \<times> 's \<times> string list) list \<Rightarrow>
   ('s, 'p, 'r) registry \<Rightarrow> ('s, 'p, 'r) registry" where
  "registerAll schema_description [] tools = tools"
| "registerAll schema_description ((nm, fn, sch, perms) # calls) tools =
     registerAll schema_description calls
       (fst (registerTool schema_description nm fn sch perms tools))"

text \<open>
  \<open>getToolDefinitionsForAgent\<close>: the loop over \<open>this.tools.values()\<close>, pushing onto
  \<open>authorizedTools\<close>.
\<close>

definition isAuthorized :: "string list \<Rightarrow> ('s, 'p, 'r) ToolDefinition \<Rightarrow> bool" where
  "isAuthorized currentUserPermissions tool =
     (length (permissions tool) = 0 \<or>
      list_ex (\<lambda>p. p \<in> set currentUserPermissions) (permissions tool))"

fun authorizedLoop ::
  "string list \<Rightarrow> ('s, 'p, 'r) ToolDefinition list \<Rightarrow> 's AgentToolDefinition list \<Rightarrow>
   's AgentToolDefinition list" where
  "authorizedLoop currentUserPermissions [] authorizedTools = authorizedTools"
| "authorizedLoop currentUserPermissions (tool # rest) authorizedTools =
     authorizedLoop currentUserPermissions rest
       (if isAuthorized currentUserPermissions tool
        then authorizedTools @
               [\<lparr> name = name tool, description = description tool, schema = schema tool \<rparr>]
        else authorizedTools)"

definition getToolDefinitionsForAgent ::
  "('s, 'p, 'r) registry \<Rightarrow> string list \<Rightarrow> 's AgentToolDefinition list" where
  "getToolDefinitionsForAgent tools currentUserPermissions =
     authorizedLoop currentUserPermissions (map snd tools) []"

text \<open>
  \<open>executeTool\<close>. The \<open>try\<close> block holds both the validation \<open>tool.schema.parse(params)\<close>
  and the call of the tool's function; its \<open>catch\<close> logs, turns a \<open>ZodError\<close> into an
  \<open>Error\<close> "Invalid parameters ..." and throws every other error again.
\<close>

definition rethrow :: "string \<Rightarrow> js_error \<Rightarrow> js_error" where
  "rethrow nm error =
     (case error of
        ZodError message \<Rightarrow> Error (''Invalid parameters for tool '' @ nm @ '': '' @ message)
      | _ \<Rightarrow> error)"

definition executeTool ::
  "('s, 'p) safe_parse \<Rightarrow> ('s, 'p, 'r) registry \<Rightarrow> string \<Rightarrow> 'p \<Rightarrow>
   (js_error + 'r) \<times> 'p registry_effect list" where
  "executeTool safeParse tools nm params =
     (case map_of tools nm of
        None \<Rightarrow> (Inl (Error (''Tool \"'' @ nm @ ''\" not found.'')), [])
      | Some tool \<Rightarrow>
          let logged = console_log (''Executing tool: '' @ nm @ '' with params:'') params
          in (case safeParse (schema tool) params of
                Inl message \<Rightarrow>
                  (Inl (rethrow nm (ZodError message)),
                   [logged,
                    console_error (''Error executing tool \"'' @ nm @ ''\":'') (ZodError message)])
              | Inr _ \<Rightarrow>
                  (case toolFn tool params of
                     Inr result \<Rightarrow> (Inr result, [logged, toolFn_called nm params])
                   | Inl error \<Rightarrow>
                       (Inl (rethrow nm error),
                        [logged, toolFn_called nm params,
                         console_error (''Error executing tool \"'' @ nm @ ''\":'') error]))))"

section \<open>The demo application's tool (app.ts)\<close>

text \<open>
  The host application registers one tool, \<open>searchFlights\<close>, whose schema is an object
  of three strings, the first two non-empty. The fragment of the validation library
  that this schema needs: string fields, optionally non-empty, all required; arguments
  are JSON objects. The theorems below hold for every \<open>safeParse\<close>; this fragment only
  supplies concrete inputs.
\<close>

datatype json_value = JString string | JNumber int | JBool bool | JNull

type_synonym json_object = "(string \<times> json_value) list"

datatype zod_type = ZodString bool

record ZodObject =
  shape :: "(string \<times> zod_type) list"
  zod_description :: "string option"

fun field_issue :: "zod_type \<Rightarrow> json_value option \<Rightarrow> string option" where
  "field_issue (ZodString nonempty) None = Some ''Required''"
| "field_issue (ZodString nonempty) (Some (JString v)) =
     (if nonempty \<and> v = [] then Some ''String must contain at least 1 character(s)''
      else None)"
| "field_issue (ZodString nonempty) (Some _) = Some ''Expected string''"

definition zod_safeParse :: "(ZodObject, json_object) safe_parse" where
  "zod_safeParse sch args =
     (case List.map_filter (\<lambda>(k, t). field_issue t (map_of args k)) (shape sch) of
        [] \<Rightarrow> Inr (filter (\<lambda>(k, v). k \<in> fst ` set (shape sch)) args)
      | issue # _ \<Rightarrow> Inl issue)"

definition flightSearchSchema :: ZodObject where
  "flightSearchSchema =
     \<lparr> shape = [(''departureCity'', ZodString True),
                (''arrivalCity'', ZodString True),
                (''departureDate'', ZodString False)],
       zod_description = Some ''Search for available flights'' \<rparr>"

record flight =
  flight_no :: string
  departs :: string
  arrives :: string

record flight_results =
  status :: string
  flights :: "flight list"

definition searchFlights :: "json_object \<Rightarrow> js_error + flight_results" where
  "searchFlights params =
     Inr \<lparr> status = ''success'',
           flights = [\<lparr> flight_no = ''UA123'', departs = ''08:00'', arrives = ''10:30'' \<rparr>,
                      \<lparr> flight_no = ''AA456'', departs = ''09:15'', arrives = ''11:45'' \<rparr>] \<rparr>"

definition registerTools :: "(ZodObject, json_object, flight_results) registry" where
  "registerTools =
     fst (registerTool zod_description ''searchFlights'' searchFlights flightSearchSchema [] [])"

text \<open>The catalog the agent service holds for a session of the demo application.\<close>

definition demo_catalog :: "string \<rightharpoonup> ZodObject AgentToolDefinition" where
  "demo_catalog =
     map_of (map (\<lambda>d. (name d, d)) (getToolDefinitionsForAgent registerTools []))"

section \<open>Sessions of the demo application\<close>

text \<open>
  The defaults of \<open>Annotation.Root\<close>, and the state of a request that posts a history
  together with the demo application's catalog.
\<close>

definition initialState :: "('a, 's) AgentState" where
  "initialState =
     \<lparr> messages = [], tool_definitions = Map.empty,
       requires_user_input = False, pending_tool_name = None \<rparr>"

definition demo_session ::
  "(json_object, ZodObject) BaseMessage list \<Rightarrow> (json_object, ZodObject) AgentState" where
  "demo_session history =
     applyUpdate initialState
       \<lparr> upd_messages = Some history, upd_tool_definitions = Some demo_catalog,
         upd_requires_user_input = None, upd_pending_tool_name = None \<rparr>"

definition model_requests ::
  "json_object ToolCall list \<Rightarrow> (json_object, ZodObject) BaseMessage" where
  "model_requests calls =
     AIMessage \<lparr> content = Text [], tool_calls = Some calls, additional_kwargs = None \<rparr>"

definition search_call :: "string \<Rightarrow> json_object \<Rightarrow> json_object ToolCall" where
  "search_call call_id args =
     \<lparr> tc_name = ''searchFlights'', tc_args = args,
       tc_id = Some call_id, tc_type = Some ''tool_call'' \<rparr>"

text \<open>
  Inputs of the concrete runs further down: a session paused on a pending tool, a
  stand-in for \<open>zodToJsonSchema\<close> that keeps the property names and, like the
  library, fails with a \<open>TypeError\<close> on an undefined schema, a rendering service
  that refuses the connection and one that answers, a second tool that needs a
  permission, a variant of \<open>searchFlights\<close> that checks the upstream answer with the
  validation library and rejects it, and a complete query.
\<close>

definition paused_session ::
  "(json_object, ZodObject) BaseMessage list \<Rightarrow> string \<Rightarrow> (json_object, ZodObject) AgentState" where
  "paused_session history pending =
     (demo_session history)\<lparr> requires_user_input := True, pending_tool_name := Some pending \<rparr>"

fun property_names :: "ZodObject option \<Rightarrow> js_error + string list" where
  "property_names None = Inl (TypeError ''Cannot read properties of undefined'')"
| "property_names (Some sch) = Inr (map fst (shape sch))"

definition renderer_down :: "string \<Rightarrow> string list render_request \<Rightarrow> js_error + axios_response" where
  "renderer_down url request = Inl (Error ''connect ECONNREFUSED 127.0.0.1:4000'')"

definition renderer_up :: "string \<Rightarrow> string list render_request \<Rightarrow> js_error + axios_response" where
  "renderer_up url request =
     Inr \<lparr> data = Some \<lparr> html = Some ''<agentic-dynamic-form></agentic-dynamic-form>'' \<rparr> \<rparr>"

definition cancelBooking :: "json_object \<Rightarrow> js_error + flight_results" where
  "cancelBooking params = Inl (Error ''Booking not found'')"

definition searchFlights_checked :: "json_object \<Rightarrow> js_error + flight_results" where
  "searchFlights_checked params = Inl (ZodError ''Invalid upstream response'')"

definition full_query :: json_object where
  "full_query =
     [(''departureCity'', JString ''NYC''), (''arrivalCity'', JString ''SFO''),
      (''departureDate'', JString ''2025-06-01'')]"

section \<open>Properties of the routing function\<close>

lemma lastMessage_snoc: "messages state = history @ [x] \<Longrightarrow> lastMessage state = Some x"
  by (simp add: lastMessage_def)

lemma demo_catalog_searchFlights:
  "demo_catalog ''searchFlights'' =
     Some \<lparr> name = ''searchFlights'', description = ''Search for available flights'',
            schema = flightSearchSchema \<rparr>"
  by (simp add: demo_catalog_def getToolDefinitionsForAgent_def registerTools_def
      registerTool_def isAuthorized_def flightSearchSchema_def)

lemma demo_catalog_other: "n \<noteq> ''searchFlights'' \<Longrightarrow> demo_catalog n = None"
  by (simp add: demo_catalog_def getToolDefinitionsForAgent_def registerTools_def
      registerTool_def isAuthorized_def flightSearchSchema_def)

lemma demo_session_simps:
  "messages (demo_session h) = h"
  "tool_definitions (demo_session h) = demo_catalog"
  "requires_user_input (demo_session h) = False"
  "pending_tool_name (demo_session h) = None"
  by (simp_all add: demo_session_def applyUpdate_def initialState_def)

lemma only_departure_invalid:
  "\<not> success (zod_safeParse flightSearchSchema [(''departureCity'', JString ''NYC'')])"
  by (simp add: success_def zod_safeParse_def flightSearchSchema_def List.map_filter_def)

lemma all_three_valid:
  "success (zod_safeParse flightSearchSchema
     [(''departureCity'', JString ''NYC''), (''arrivalCity'', JString ''SFO''),
      (''departureDate'', JString ''2025-06-01'')])"
  by (simp add: success_def zod_safeParse_def flightSearchSchema_def List.map_filter_def)

text \<open>
  C1. When the last message is a model response, its first tool invocation names a
  tool of \<open>tool_definitions\<close> and the arguments fail validation against that tool's
  schema, \<open>shouldContinue\<close> returns \<open>human_in_the_loop\<close>, sets
  \<open>requires_user_input\<close> to true and \<open>pending_tool_name\<close> to the invocation's tool
  name; the history and the catalog stay as they were.
\<close>

theorem shouldContinue_invalid_arguments:
  assumes "messages state = history @ [AIMessage m]"
      and "tool_calls m = Some (toolCall # others)"
      and "tool_definitions state (tc_name toolCall) = Some tool"
      and "\<not> success (safeParse (schema tool) (tc_args toolCall))"
  shows "shouldContinue safeParse state =
           (human_in_the_loop,
            state\<lparr> requires_user_input := True,
                   pending_tool_name := Some (tc_name toolCall) \<rparr>)"
  using assms by (simp add: shouldContinue_def lastMessage_snoc)

theorem shouldContinue_invalid_arguments_witness:
  "shouldContinue zod_safeParse
     (demo_session [HumanMessage ''Flights from NYC?'',
        model_requests [search_call ''call_1'' [(''departureCity'', JString ''NYC'')]]]) =
   (human_in_the_loop,
    (demo_session [HumanMessage ''Flights from NYC?'',
        model_requests [search_call ''call_1'' [(''departureCity'', JString ''NYC'')]]])
      \<lparr> requires_user_input := True, pending_tool_name := Some ''searchFlights'' \<rparr>)"
proof -
  let ?call = "search_call ''call_1'' [(''departureCity'', JString ''NYC'')]"
  let ?m = "\<lparr> content = Text [], tool_calls = Some [?call], additional_kwargs = None \<rparr>
              :: (json_object, ZodObject) AIMessageFields"
  let ?s = "demo_session [HumanMessage ''Flights from NYC?'', model_requests [?call]]"
  have h1: "messages ?s = [HumanMessage ''Flights from NYC?''] @ [AIMessage ?m]"
    by (simp add: demo_session_simps model_requests_def)
  have h2: "tool_calls ?m = Some (?call # [])" by simp
  have h3: "tool_definitions ?s (tc_name ?call) =
              Some \<lparr> name = ''searchFlights'', description = ''Search for available flights'',
                     schema = flightSearchSchema \<rparr>"
    by (simp add: demo_session_simps search_call_def demo_catalog_searchFlights)
  have h4: "\<not> success (zod_safeParse
              (schema \<lparr> name = ''searchFlights'', description = ''Search for available flights'',
                     schema = flightSearchSchema \<rparr>) (tc_args ?call))"
    using only_departure_invalid by (simp add: search_call_def)
  show ?thesis
    using shouldContinue_invalid_arguments [where safeParse = zod_safeParse, OF h1 h2 h3 h4]
    by (simp add: search_call_def)
qed


text \<open>
  C2. When the last message is a model response, its first tool invocation names a
  tool of \<open>tool_definitions\<close> and the arguments validate against that tool's schema,
  \<open>shouldContinue\<close> returns \<open>tool_executor\<close>, sets \<open>requires_user_input\<close> to false
  and clears \<open>pending_tool_name\<close>.
\<close>

theorem shouldContinue_valid_arguments:
  assumes "messages state = history @ [AIMessage m]"
      and "tool_calls m = Some (toolCall # others)"
      and "tool_definitions state (tc_name toolCall) = Some tool"
      and "success (safeParse (schema tool) (tc_args toolCall))"
  shows "shouldContinue safeParse state =
           (tool_executor,
            state\<lparr> requires_user_input := False, pending_tool_name := None \<rparr>)"
  using assms by (simp add: shouldContinue_def lastMessage_snoc)

theorem shouldContinue_valid_arguments_witness:
  "shouldContinue zod_safeParse
     ((demo_session [HumanMessage ''NYC to SFO on 1 June'',
        model_requests [search_call ''call_2''
          [(''departureCity'', JString ''NYC''), (''arrivalCity'', JString ''SFO''),
           (''departureDate'', JString ''2025-06-01'')]]])
        \<lparr> requires_user_input := True, pending_tool_name := Some ''searchFlights'' \<rparr>) =
   (tool_executor,
    demo_session [HumanMessage ''NYC to SFO on 1 June'',
        model_requests [search_call ''call_2''
          [(''departureCity'', JString ''NYC''), (''arrivalCity'', JString ''SFO''),
           (''departureDate'', JString ''2025-06-01'')]]])"
proof -
  let ?call = "search_call ''call_2''
          [(''departureCity'', JString ''NYC''), (''arrivalCity'', JString ''SFO''),
           (''departureDate'', JString ''2025-06-01'')]"
  let ?m = "\<lparr> content = Text [], tool_calls = Some [?call], additional_kwargs = None \<rparr>
              :: (json_object, ZodObject) AIMessageFields"
  let ?base = "demo_session [HumanMessage ''NYC to SFO on 1 June'', model_requests [?call]]"
  let ?s = "?base\<lparr> requires_user_input := True, pending_tool_name := Some ''searchFlights'' \<rparr>"
  let ?tool = "\<lparr> name = ''searchFlights'', description = ''Search for available flights'',
                  schema = flightSearchSchema \<rparr>"
  have h1: "messages ?s = [HumanMessage ''NYC to SFO on 1 June''] @ [AIMessage ?m]"
    by (simp add: demo_session_simps model_requests_def)
  have h2: "tool_calls ?m = Some (?call # [])" by simp
  have h3: "tool_definitions ?s (tc_name ?call) = Some ?tool"
    by (simp add: demo_session_simps search_call_def demo_catalog_searchFlights)
  have h4: "success (zod_safeParse (schema ?tool) (tc_args ?call))"
    using all_three_valid by (simp add: search_call_def)
  have restored: "?s\<lparr> requires_user_input := False, pending_tool_name := None \<rparr> = ?base"
    by (simp add: demo_session_def applyUpdate_def initialState_def)
  show ?thesis
    using shouldContinue_valid_arguments [where safeParse = zod_safeParse, OF h1 h2 h3 h4] restored
    by simp
qed

text \<open>
  C3. When the last message is a model response whose first tool invocation names a
  tool that \<open>tool_definitions\<close> does not have, \<open>shouldContinue\<close> returns the end route
  and does not touch the state: a \<open>requires_user_input\<close> that was false is still
  false afterwards.
\<close>

theorem shouldContinue_unknown_tool:
  assumes "messages state = history @ [AIMessage m]"
      and "tool_calls m = Some (toolCall # others)"
      and "tool_definitions state (tc_name toolCall) = None"
  shows "shouldContinue safeParse state = (end_route, state) \<and>
         (\<not> requires_user_input state \<longrightarrow>
            \<not> requires_user_input (snd (shouldContinue safeParse state)))"
  using assms by (simp add: shouldContinue_def lastMessage_snoc)

theorem shouldContinue_unknown_tool_witness:
  "shouldContinue zod_safeParse
     (demo_session [HumanMessage ''Book me a hotel'',
        model_requests [\<lparr> tc_name = ''bookHotel'', tc_args = [(''city'', JString ''Paris'')],
                          tc_id = Some ''call_3'', tc_type = Some ''tool_call'' \<rparr>]]) =
   (end_route,
    demo_session [HumanMessage ''Book me a hotel'',
        model_requests [\<lparr> tc_name = ''bookHotel'', tc_args = [(''city'', JString ''Paris'')],
                          tc_id = Some ''call_3'', tc_type = Some ''tool_call'' \<rparr>]]) \<and>
   \<not> requires_user_input (snd (shouldContinue zod_safeParse
     (demo_session [HumanMessage ''Book me a hotel'',
        model_requests [\<lparr> tc_name = ''bookHotel'', tc_args = [(''city'', JString ''Paris'')],
                          tc_id = Some ''call_3'', tc_type = Some ''tool_call'' \<rparr>]])))"
proof -
  let ?call = "\<lparr> tc_name = ''bookHotel'', tc_args = [(''city'', JString ''Paris'')],
                  tc_id = Some ''call_3'', tc_type = Some ''tool_call'' \<rparr> :: json_object ToolCall"
  let ?m = "\<lparr> content = Text [], tool_calls = Some [?call], additional_kwargs = None \<rparr>
              :: (json_object, ZodObject) AIMessageFields"
  let ?s = "demo_session [HumanMessage ''Book me a hotel'', model_requests [?call]]"
  have h1: "messages ?s = [HumanMessage ''Book me a hotel''] @ [AIMessage ?m]"
    by (simp add: demo_session_simps model_requests_def)
  have h2: "tool_calls ?m = Some (?call # [])" by simp
  have h3: "tool_definitions ?s (tc_name ?call) = None"
    by (simp add: demo_session_simps demo_catalog_other)
  have h5: "\<not> requires_user_input ?s" by (simp add: demo_session_simps)
  show ?thesis
    using shouldContinue_unknown_tool [where safeParse = zod_safeParse, OF h1 h2 h3] h5
    by simp
qed

text \<open>
  C4. When the last message is not a model response, or is a model response with no
  tool invocation (a missing or an empty \<open>tool_calls\<close>), \<open>shouldContinue\<close> returns
  the end route and the state after the call is the state before it, so none of
  \<open>requires_user_input\<close>, \<open>pending_tool_name\<close>, \<open>messages\<close> and
  \<open>tool_definitions\<close> has changed.
\<close>

theorem shouldContinue_no_invocation:
  assumes "messages state = history @ [x]"
      and "(\<forall>m. x \<noteq> AIMessage m) \<or>
           (\<exists>m. x = AIMessage m \<and> (tool_calls m = None \<or> tool_calls m = Some []))"
  shows "shouldContinue safeParse state = (end_route, state)"
proof (cases x)
  case (AIMessage m)
  with assms(2) have "tool_calls m = None \<or> tool_calls m = Some []" by simp
  with AIMessage assms(1) show ?thesis
    by (auto simp add: shouldContinue_def lastMessage_snoc)
qed (use assms(1) in \<open>simp_all add: shouldContinue_def lastMessage_snoc\<close>)

theorem shouldContinue_no_invocation_witness:
  "shouldContinue zod_safeParse
     (demo_session [HumanMessage ''Hello'', model_requests []]) =
     (end_route, demo_session [HumanMessage ''Hello'', model_requests []]) \<and>
   shouldContinue zod_safeParse (demo_session [HumanMessage ''Hello'']) =
     (end_route, demo_session [HumanMessage ''Hello''])"
proof -
  let ?m = "\<lparr> content = Text [], tool_calls = Some [], additional_kwargs = None \<rparr>
              :: (json_object, ZodObject) AIMessageFields"
  have a1: "messages (demo_session [HumanMessage ''Hello'', model_requests []]) =
              [HumanMessage ''Hello''] @ [AIMessage ?m]"
    by (simp add: demo_session_simps model_requests_def)
  have a2: "(\<forall>m. AIMessage ?m \<noteq> AIMessage m) \<or>
            (\<exists>m. AIMessage ?m = AIMessage m \<and> (tool_calls m = None \<or> tool_calls m = Some []))"
    by simp
  have b1: "messages (demo_session [HumanMessage ''Hello'']) = [] @ [HumanMessage ''Hello'']"
    by (simp add: demo_session_simps)
  have b2: "(\<forall>m. (HumanMessage ''Hello'' :: (json_object, ZodObject) BaseMessage) \<noteq> AIMessage m) \<or>
            (\<exists>m. (HumanMessage ''Hello'' :: (json_object, ZodObject) BaseMessage) = AIMessage m \<and>
                 (tool_calls m = None \<or> tool_calls m = Some []))"
    by simp
  show ?thesis
    using shouldContinue_no_invocation [where safeParse = zod_safeParse, OF a1 a2]
          shouldContinue_no_invocation [where safeParse = zod_safeParse, OF b1 b2]
    by simp
qed

lemma shouldContinue_empty_history:
  "messages state = [] \<Longrightarrow> shouldContinue safeParse state = (end_route, state)"
  by (simp add: shouldContinue_def lastMessage_def)

section \<open>Properties of the tool-executor node\<close>

text \<open>
  C5. When the last message is a model response with at least one tool invocation,
  \<open>toolExecutorNode\<close> returns one message, so that the reducer appends exactly one
  message to the history. That message carries a single tool call of type
  \<open>tool_call\<close> with the name, the arguments and the id of the first invocation
  (the directive's name, params and tool\_call\_id); the other invocations of the
  response do not occur in it. The node has no effect at all: its result is a function
  of the state, which holds no tool function, and it does not even depend on the
  catalog.
\<close>

theorem toolExecutorNode_reemits_first_invocation:
  assumes "messages state = history @ [AIMessage m]"
      and "tool_calls m = Some (toolCall # others)"
  shows "toolExecutorNode state =
           Inr \<lparr> upd_messages = Some
                   [AIMessage \<lparr> content = Text [],
                      tool_calls = Some [toolCall\<lparr> tc_type := Some ''tool_call'' \<rparr>],
                      additional_kwargs = None \<rparr>],
                 upd_tool_definitions = None, upd_requires_user_input = None,
                 upd_pending_tool_name = None \<rparr> \<and>
         (\<forall>upd. toolExecutorNode state = Inr upd \<longrightarrow>
           applyUpdate state upd =
             state\<lparr> messages := messages state @
                   [AIMessage \<lparr> content = Text [],
                      tool_calls = Some [\<lparr> tc_name = tc_name toolCall, tc_args = tc_args toolCall,
                                          tc_id = tc_id toolCall, tc_type = Some ''tool_call'' \<rparr>],
                      additional_kwargs = None \<rparr>] \<rparr>) \<and>
         (\<forall>catalog. toolExecutorNode (state\<lparr> tool_definitions := catalog \<rparr>) =
           toolExecutorNode state)"
proof (intro conjI)
  show emitted: "toolExecutorNode state =
           Inr \<lparr> upd_messages = Some
                   [AIMessage \<lparr> content = Text [],
                      tool_calls = Some [toolCall\<lparr> tc_type := Some ''tool_call'' \<rparr>],
                      additional_kwargs = None \<rparr>],
                 upd_tool_definitions = None, upd_requires_user_input = None,
                 upd_pending_tool_name = None \<rparr>"
    using assms by (simp add: toolExecutorNode_def lastMessage_snoc)
  show "\<forall>upd. toolExecutorNode state = Inr upd \<longrightarrow>
           applyUpdate state upd =
             state\<lparr> messages := messages state @
                   [AIMessage \<lparr> content = Text [],
                      tool_calls = Some [\<lparr> tc_name = tc_name toolCall, tc_args = tc_args toolCall,
                                          tc_id = tc_id toolCall, tc_type = Some ''tool_call'' \<rparr>],
                      additional_kwargs = None \<rparr>] \<rparr>"
    unfolding emitted by (auto simp add: applyUpdate_def)
  show "\<forall>catalog. toolExecutorNode (state\<lparr> tool_definitions := catalog \<rparr>) =
           toolExecutorNode state"
    by (simp add: toolExecutorNode_def lastMessage_def)
qed

theorem toolExecutorNode_reemits_first_invocation_witness:
  "applyUpdate
     (demo_session [HumanMessage ''NYC to SFO, then a hotel'',
        model_requests
          [search_call ''call_7''
             [(''departureCity'', JString ''NYC''), (''arrivalCity'', JString ''SFO''),
              (''departureDate'', JString ''2025-06-01'')],
           \<lparr> tc_name = ''bookHotel'', tc_args = [(''city'', JString ''SFO'')],
             tc_id = Some ''call_8'', tc_type = None \<rparr>]])
     (projr (toolExecutorNode
        (demo_session [HumanMessage ''NYC to SFO, then a hotel'',
           model_requests
             [search_call ''call_7''
                [(''departureCity'', JString ''NYC''), (''arrivalCity'', JString ''SFO''),
                 (''departureDate'', JString ''2025-06-01'')],
              \<lparr> tc_name = ''bookHotel'', tc_args = [(''city'', JString ''SFO'')],
                tc_id = Some ''call_8'', tc_type = None \<rparr>]]))) =
   demo_session [HumanMessage ''NYC to SFO, then a hotel'',
        model_requests
          [search_call ''call_7''
             [(''departureCity'', JString ''NYC''), (''arrivalCity'', JString ''SFO''),
              (''departureDate'', JString ''2025-06-01'')],
           \<lparr> tc_name = ''bookHotel'', tc_args = [(''city'', JString ''SFO'')],
             tc_id = Some ''call_8'', tc_type = None \<rparr>],
        model_requests
          [search_call ''call_7''
             [(''departureCity'', JString ''NYC''), (''arrivalCity'', JString ''SFO''),
              (''departureDate'', JString ''2025-06-01'')]]]"
proof -
  let ?first = "search_call ''call_7''
             [(''departureCity'', JString ''NYC''), (''arrivalCity'', JString ''SFO''),
              (''departureDate'', JString ''2025-06-01'')]"
  let ?second = "\<lparr> tc_name = ''bookHotel'', tc_args = [(''city'', JString ''SFO'')],
             tc_id = Some ''call_8'', tc_type = None \<rparr> :: json_object ToolCall"
  let ?m = "\<lparr> content = Text [], tool_calls = Some [?first, ?second],
              additional_kwargs = None \<rparr> :: (json_object, ZodObject) AIMessageFields"
  let ?state = "demo_session [HumanMessage ''NYC to SFO, then a hotel'',
                  model_requests [?first, ?second]]"
  have h1: "messages ?state = [HumanMessage ''NYC to SFO, then a hotel''] @ [AIMessage ?m]"
    by (simp add: demo_session_simps model_requests_def)
  have h2: "tool_calls ?m = Some (?first # [?second])" by simp
  note fact = toolExecutorNode_reemits_first_invocation [OF h1 h2]
  from fact have run: "toolExecutorNode ?state =
           Inr \<lparr> upd_messages = Some
                   [AIMessage \<lparr> content = Text [],
                      tool_calls = Some [?first\<lparr> tc_type := Some ''tool_call'' \<rparr>],
                      additional_kwargs = None \<rparr>],
                 upd_tool_definitions = None, upd_requires_user_input = None,
                 upd_pending_tool_name = None \<rparr>"
    by blast
  show ?thesis
    unfolding run
    by (simp add: applyUpdate_def demo_session_def initialState_def model_requests_def
        search_call_def)
qed

section \<open>Properties of the human-in-the-loop node\<close>

lemma paused_session_simps:
  "messages (paused_session h p) = h"
  "tool_definitions (paused_session h p) = demo_catalog"
  "requires_user_input (paused_session h p) = True"
  "pending_tool_name (paused_session h p) = Some p"
  by (simp_all add: paused_session_def demo_session_simps)

lemma property_of_own:
  "record key = Some entry \<Longrightarrow> property_of record key = Some (Own entry)"
  by (simp add: property_of_def)

lemma property_of_Own_iff:
  "property_of record key = Some (Own entry) \<longleftrightarrow> record key = Some entry"
  by (auto simp add: property_of_def split: option.splits)

lemma property_of_undefined_iff:
  "property_of record key = None \<longleftrightarrow>
     record key = None \<and> map_of Object_prototype key = None"
  by (auto simp add: property_of_def split: option.splits)

lemma humanInTheLoopNode_unset:
  "pending_tool_name state = None \<or> pending_tool_name state = Some [] \<Longrightarrow>
   humanInTheLoopNode zodToJsonSchema axios_post state =
     (Inl (Error ''Invalid state: pending_tool_name is not set.''), [])"
  by (auto simp add: humanInTheLoopNode_def)

lemma humanInTheLoopNode_undefined:
  "pending_tool_name state = Some pending \<Longrightarrow> pending \<noteq> [] \<Longrightarrow>
   property_of (tool_definitions state) pending = None \<Longrightarrow>
   humanInTheLoopNode zodToJsonSchema axios_post state =
     (Inl (Error (''Tool '' @ pending @ '' not found.'')), [])"
  by (simp add: humanInTheLoopNode_def)

lemma humanInTheLoopNode_failed:
  "pending_tool_name state = Some pending \<Longrightarrow> pending \<noteq> [] \<Longrightarrow>
   tool_definitions state pending = Some tool \<Longrightarrow>
   zodToJsonSchema (Some (schema tool)) = Inr json_schema \<Longrightarrow>
   axios_post UI_RENDERING_SERVICE_URL
     \<lparr> component = ''agentic-dynamic-form'',
       rq_schema = json_schema, rq_toolName = Some (name tool) \<rparr> = Inl error \<Longrightarrow>
   humanInTheLoopNode zodToJsonSchema axios_post state =
     (Inr \<lparr> upd_messages = Some [AIMessage \<lparr> content = Text apology, tool_calls = None,
                                             additional_kwargs = None \<rparr>],
            upd_tool_definitions = None, upd_requires_user_input = None,
            upd_pending_tool_name = None \<rparr>,
      [HttpPost UI_RENDERING_SERVICE_URL
         \<lparr> component = ''agentic-dynamic-form'',
           rq_schema = json_schema, rq_toolName = Some (name tool) \<rparr>,
       ConsoleError ''Failed to render component via rendering service:'' error])"
  by (simp add: humanInTheLoopNode_def property_of_own)

lemma humanInTheLoopNode_rendered:
  "pending_tool_name state = Some pending \<Longrightarrow> pending \<noteq> [] \<Longrightarrow>
   tool_definitions state pending = Some tool \<Longrightarrow>
   zodToJsonSchema (Some (schema tool)) = Inr json_schema \<Longrightarrow>
   axios_post UI_RENDERING_SERVICE_URL
     \<lparr> component = ''agentic-dynamic-form'',
       rq_schema = json_schema, rq_toolName = Some (name tool) \<rparr> = Inr response \<Longrightarrow>
   data response = Some body \<Longrightarrow>
   humanInTheLoopNode zodToJsonSchema axios_post state =
     (Inr \<lparr> upd_messages = Some
              [AIMessage \<lparr> content = JSON_stringify
                   \<lparr> rh_type = ''render_html'', rh_html = html body,
                     rh_component_id = ''dynamic-form'',
                     rh_message = ''I need some more information to '' @
                                  toLowerCase (description tool) @ ''.'',
                     rh_schema = schema tool, rh_toolName = name tool \<rparr>,
                 tool_calls = None,
                 additional_kwargs = Some [(''type'', ''agentic_ui_render_html'')] \<rparr>],
            upd_tool_definitions = None, upd_requires_user_input = None,
            upd_pending_tool_name = None \<rparr>,
      [HttpPost UI_RENDERING_SERVICE_URL
         \<lparr> component = ''agentic-dynamic-form'',
           rq_schema = json_schema, rq_toolName = Some (name tool) \<rparr>])"
  by (simp add: humanInTheLoopNode_def property_of_own)

text \<open>
  What the node returns when it returns a directive, and what it has done when a
  request is in its trace.
\<close>

lemma humanInTheLoopNode_directive:
  assumes "fst (humanInTheLoopNode zodToJsonSchema axios_post state) = Inr upd"
      and "upd_messages upd = Some emitted"
      and "AIMessage ai \<in> set emitted"
      and "content ai = JSON_stringify directive"
  shows "\<exists>pending tool. pending_tool_name state = Some pending \<and>
           tool_definitions state pending = Some tool \<and>
           rh_message directive =
             ''I need some more information to '' @ toLowerCase (description tool) @ ''.'' \<and>
           rh_toolName directive = name tool \<and> rh_schema directive = schema tool \<and>
           rh_type directive = ''render_html''"
  using assms
  by (auto simp add: humanInTheLoopNode_def Let_def property_of_Own_iff
      split: option.splits if_splits sum.splits property.splits)

lemma humanInTheLoopNode_posted:
  assumes "humanInTheLoopNode zodToJsonSchema axios_post state = (outcome, effects)"
      and "HttpPost url request \<in> set effects"
      and "axios_post url request = Inl error"
  shows "outcome =
           Inr \<lparr> upd_messages = Some [AIMessage \<lparr> content = Text apology, tool_calls = None,
                                                   additional_kwargs = None \<rparr>],
                 upd_tool_definitions = None, upd_requires_user_input = None,
                 upd_pending_tool_name = None \<rparr> \<and>
         effects = [HttpPost url request,
                    ConsoleError ''Failed to render component via rendering service:'' error]"
  using assms
  by (auto simp add: humanInTheLoopNode_def Let_def
      split: option.splits if_splits sum.splits property.splits)

text \<open>
  C6. With \<open>pending_tool_name\<close> set to a tool of \<open>tool_definitions\<close>, when the call
  to the rendering collaborator fails (the node has posted a request and the answer to
  that request is a failure), \<open>humanInTheLoopNode\<close> returns normally with one plain
  text message, the apology, and no \<open>render_html\<close> directive. The effects are the one
  request and the log line: the request is not repeated, and nothing is thrown.
\<close>

theorem humanInTheLoopNode_render_failure:
  assumes "pending_tool_name state = Some pending"
      and "tool_definitions state pending = Some tool"
      and "humanInTheLoopNode zodToJsonSchema axios_post state = (outcome, effects)"
      and "HttpPost url request \<in> set effects"
      and "axios_post url request = Inl error"
  shows "outcome =
           Inr \<lparr> upd_messages = Some [AIMessage \<lparr> content = Text apology, tool_calls = None,
                                                   additional_kwargs = None \<rparr>],
                 upd_tool_definitions = None, upd_requires_user_input = None,
                 upd_pending_tool_name = None \<rparr> \<and>
         effects = [HttpPost url request,
                    ConsoleError ''Failed to render component via rendering service:'' error]"
  using assms(3,4,5) by (rule humanInTheLoopNode_posted)

lemma property_names_flightSearchSchema:
  "map fst (shape flightSearchSchema) = [''departureCity'', ''arrivalCity'', ''departureDate'']"
  by (simp add: flightSearchSchema_def)

theorem humanInTheLoopNode_render_failure_witness:
  "humanInTheLoopNode property_names renderer_down
     (paused_session [HumanMessage ''Flights from NYC?''] ''searchFlights'') =
   (Inr \<lparr> upd_messages = Some [AIMessage \<lparr> content = Text apology, tool_calls = None,
                                           additional_kwargs = None \<rparr>],
          upd_tool_definitions = None, upd_requires_user_input = None,
          upd_pending_tool_name = None \<rparr>,
    [HttpPost ''http://localhost:4000/render''
       \<lparr> component = ''agentic-dynamic-form'',
         rq_schema = [''departureCity'', ''arrivalCity'', ''departureDate''],
         rq_toolName = Some ''searchFlights'' \<rparr>,
     ConsoleError ''Failed to render component via rendering service:''
       (Error ''connect ECONNREFUSED 127.0.0.1:4000'')])"
proof -
  let ?state = "paused_session [HumanMessage ''Flights from NYC?''] ''searchFlights''"
  let ?tool = "\<lparr> name = ''searchFlights'', description = ''Search for available flights'',
                  schema = flightSearchSchema \<rparr>"
  let ?request = "\<lparr> component = ''agentic-dynamic-form'',
         rq_schema = [''departureCity'', ''arrivalCity'', ''departureDate''],
         rq_toolName = Some ''searchFlights'' \<rparr>"
  obtain outcome effects where
    run: "humanInTheLoopNode property_names renderer_down ?state = (outcome, effects)"
    by (cases "humanInTheLoopNode property_names renderer_down ?state")
  have h1: "pending_tool_name ?state = Some ''searchFlights''"
    by (simp add: paused_session_simps)
  have h2: "tool_definitions ?state ''searchFlights'' = Some ?tool"
    by (simp add: paused_session_simps demo_catalog_searchFlights)
  have h4: "HttpPost ''http://localhost:4000/render'' ?request \<in> set effects"
    using run
    by (auto simp add: humanInTheLoopNode_def h1 h2 property_of_own renderer_down_def
        property_names_flightSearchSchema UI_RENDERING_SERVICE_URL_def)
  have h5: "renderer_down ''http://localhost:4000/render'' ?request =
              Inl (Error ''connect ECONNREFUSED 127.0.0.1:4000'')"
    by (simp add: renderer_down_def)
  show ?thesis
    using humanInTheLoopNode_render_failure [OF h1 h2 run h4 h5] run by simp
qed

text \<open>
  C7. When \<open>humanInTheLoopNode\<close> returns a \<open>render_html\<close> directive for the pending
  tool \<open>T\<close> with description \<open>D\<close>, the directive's \<open>message\<close> contains \<open>D\<close> in
  lower case as a substring and its \<open>toolName\<close> is the name of \<open>T\<close>. The proof does
  not look into \<open>toLowerCase\<close>.
\<close>

theorem humanInTheLoopNode_prompt_carries_description:
  assumes "pending_tool_name state = Some pending"
      and "tool_definitions state pending = Some tool"
      and "fst (humanInTheLoopNode zodToJsonSchema axios_post state) = Inr upd"
      and "upd_messages upd = Some emitted"
      and "AIMessage ai \<in> set emitted"
      and "content ai = JSON_stringify directive"
  shows "sublist (toLowerCase (description tool)) (rh_message directive) \<and>
         rh_message directive =
           ''I need some more information to '' @ toLowerCase (description tool) @ ''.'' \<and>
         rh_toolName directive = name tool \<and>
         rh_type directive = ''render_html''"
proof -
  from humanInTheLoopNode_directive [OF assms(3,4,5,6)] assms(1,2)
  have built: "rh_message directive =
           ''I need some more information to '' @ toLowerCase (description tool) @ ''.''"
      "rh_toolName directive = name tool" "rh_type directive = ''render_html''"
    by auto
  have "sublist (toLowerCase (description tool))
          (''I need some more information to '' @ toLowerCase (description tool) @ ''.'')"
    by (rule sublist_appendI)
  with built show ?thesis by simp
qed

lemma lowered_description:
  "toLowerCase ''Search for available flights'' = ''search for available flights''"
  by code_simp

lemma rendered_searchFlights:
  "humanInTheLoopNode property_names renderer_up
     (paused_session [HumanMessage ''Flights from NYC?''] ''searchFlights'') =
   (Inr \<lparr> upd_messages = Some
            [AIMessage \<lparr> content = JSON_stringify
                 \<lparr> rh_type = ''render_html'',
                   rh_html = Some ''<agentic-dynamic-form></agentic-dynamic-form>'',
                   rh_component_id = ''dynamic-form'',
                   rh_message = ''I need some more information to search for available flights.'',
                   rh_schema = flightSearchSchema, rh_toolName = ''searchFlights'' \<rparr>,
               tool_calls = None,
               additional_kwargs = Some [(''type'', ''agentic_ui_render_html'')] \<rparr>],
          upd_tool_definitions = None, upd_requires_user_input = None,
          upd_pending_tool_name = None \<rparr>,
    [HttpPost ''http://localhost:4000/render''
       \<lparr> component = ''agentic-dynamic-form'',
         rq_schema = [''departureCity'', ''arrivalCity'', ''departureDate''],
         rq_toolName = Some ''searchFlights'' \<rparr>])"
  by (simp add: humanInTheLoopNode_def paused_session_simps demo_catalog_searchFlights
      property_of_own renderer_up_def lowered_description property_names_flightSearchSchema
      UI_RENDERING_SERVICE_URL_def)

theorem humanInTheLoopNode_prompt_carries_description_witness:
  "sublist ''search for available flights''
     ''I need some more information to search for available flights.'' \<and>
   rh_toolName
     \<lparr> rh_type = ''render_html'',
       rh_html = Some ''<agentic-dynamic-form></agentic-dynamic-form>'',
       rh_component_id = ''dynamic-form'',
       rh_message = ''I need some more information to search for available flights.'',
       rh_schema = flightSearchSchema, rh_toolName = ''searchFlights'' \<rparr> = ''searchFlights''"
proof -
  let ?state = "paused_session [HumanMessage ''Flights from NYC?''] ''searchFlights''"
  let ?tool = "\<lparr> name = ''searchFlights'', description = ''Search for available flights'',
                  schema = flightSearchSchema \<rparr>"
  let ?directive = "\<lparr> rh_type = ''render_html'',
       rh_html = Some ''<agentic-dynamic-form></agentic-dynamic-form>'',
       rh_component_id = ''dynamic-form'',
       rh_message = ''I need some more information to search for available flights.'',
       rh_schema = flightSearchSchema, rh_toolName = ''searchFlights'' \<rparr>"
  let ?ai = "\<lparr> content = JSON_stringify ?directive, tool_calls = None,
               additional_kwargs = Some [(''type'', ''agentic_ui_render_html'')] \<rparr>
             :: (json_object, ZodObject) AIMessageFields"
  let ?upd = "\<lparr> upd_messages = Some [AIMessage ?ai],
          upd_tool_definitions = None, upd_requires_user_input = None,
          upd_pending_tool_name = None \<rparr> :: (json_object, ZodObject) PartialAgentState"
  have h1: "pending_tool_name ?state = Some ''searchFlights''"
    by (simp add: paused_session_simps)
  have h2: "tool_definitions ?state ''searchFlights'' = Some ?tool"
    by (simp add: paused_session_simps demo_catalog_searchFlights)
  have h3: "fst (humanInTheLoopNode property_names renderer_up ?state) = Inr ?upd"
    by (simp add: rendered_searchFlights)
  have h4: "upd_messages ?upd = Some [AIMessage ?ai]" by simp
  have h5: "AIMessage ?ai \<in> set [AIMessage ?ai]" by simp
  have h6: "content ?ai = JSON_stringify ?directive" by simp
  show ?thesis
    using humanInTheLoopNode_prompt_carries_description [OF h1 h2 h3 h4 h5 h6]
    by (simp add: lowered_description)
qed

text \<open>
  The guards of the node. It throws, with nothing done, when \<open>pending_tool_name\<close> is
  unset or when the name is found neither among the entries of \<open>tool_definitions\<close>
  nor in \<open>Object.prototype\<close>. A name that is no entry but is inherited gets past
  \<open>!tool\<close>; when the library rejects the undefined schema, the \<open>catch\<close> turns that
  into the apology, and no request is posted.
\<close>

lemma humanInTheLoopNode_throws_without_lookup_result:
  assumes "pending_tool_name state = None \<or>
           (\<exists>pending. pending_tool_name state = Some pending \<and>
                      tool_definitions state pending = None \<and>
                      map_of Object_prototype pending = None)"
  shows "\<exists>error. humanInTheLoopNode zodToJsonSchema axios_post state = (Inl error, [])"
  using assms
  by (auto simp add: humanInTheLoopNode_def property_of_def)

lemma humanInTheLoopNode_inherited_member:
  assumes "pending_tool_name state = Some pending"
      and "tool_definitions state pending = None"
      and "map_of Object_prototype pending = Some member_name"
      and "zodToJsonSchema None = Inl error"
  shows "humanInTheLoopNode zodToJsonSchema axios_post state =
           (Inr \<lparr> upd_messages = Some [AIMessage \<lparr> content = Text apology, tool_calls = None,
                                                   additional_kwargs = None \<rparr>],
                  upd_tool_definitions = None, upd_requires_user_input = None,
                  upd_pending_tool_name = None \<rparr>,
            [ConsoleError ''Failed to render component via rendering service:'' error])"
proof -
  from assms(3) have "pending \<noteq> []" by (auto simp add: Object_prototype_def)
  with assms show ?thesis
    by (simp add: humanInTheLoopNode_def property_of_def)
qed

text \<open>
  C10. The claim is that \<open>humanInTheLoopNode\<close> throws, before it contacts the
  rendering collaborator, whenever \<open>pending_tool_name\<close> is unset or names no tool of
  \<open>tool_definitions\<close>, so that a \<open>render_html\<close> directive is only produced for a
  tool of the catalog. The directive part holds (\<open>humanInTheLoopNode_directive\<close>), and
  so does the throw for an unset name and for a name that the lookup does not find
  (\<open>humanInTheLoopNode_throws_without_lookup_result\<close>). The guard \<open>!tool\<close> misses the
  names that the catalog does not have but every object inherits: with
  \<open>pending_tool_name = 'toString'\<close> and the demo catalog, the node does not throw. It
  goes on to \<open>zodToJsonSchema(tool.schema)\<close> with an undefined schema, which fails
  inside the \<open>try\<close> block, and returns the apology message.
\<close>

theorem humanInTheLoopNode_inherited_name_passes_guard:
  "demo_catalog ''toString'' = None \<and>
   humanInTheLoopNode property_names renderer_up
     (paused_session [HumanMessage ''Flights from NYC?''] ''toString'') =
   (Inr \<lparr> upd_messages = Some [AIMessage \<lparr> content = Text apology, tool_calls = None,
                                           additional_kwargs = None \<rparr>],
          upd_tool_definitions = None, upd_requires_user_input = None,
          upd_pending_tool_name = None \<rparr>,
    [ConsoleError ''Failed to render component via rendering service:''
       (TypeError ''Cannot read properties of undefined'')])"
  by (simp add: humanInTheLoopNode_def paused_session_simps demo_catalog_other property_of_def
      Object_prototype_def)

section \<open>Properties of the tool registry\<close>

lemma authorizedLoop_filter:
  "authorizedLoop perms tools acc =
     acc @ map (\<lambda>tool. \<lparr> name = name tool, description = description tool,
                           schema = schema tool \<rparr>)
               (filter (isAuthorized perms) tools)"
  by (induction tools arbitrary: acc) simp_all

lemma isAuthorized_iff:
  "isAuthorized perms tool \<longleftrightarrow>
     permissions tool = [] \<or> (\<exists>p \<in> set (permissions tool). p \<in> set perms)"
  by (auto simp add: isAuthorized_def list_ex_iff)

lemma set_update_subset: "set (AList.update k v al) \<subseteq> insert (k, v) (set al)"
  by (induction al) auto

lemma registerTool_distinct:
  "distinct (map fst tools) \<Longrightarrow>
   distinct (map fst (fst (registerTool d nm fn sch perms tools)))"
  by (simp add: registerTool_def Let_def distinct_update)

lemma registerTool_named:
  assumes "\<forall>(k, tool) \<in> set tools. name tool = k"
  shows "\<forall>(k, tool) \<in> set (fst (registerTool d nm fn sch perms tools)). name tool = k"
proof -
  let ?entry = "\<lparr> name = nm,
      description = (case d sch of None \<Rightarrow> ''No description provided.''
                     | Some x \<Rightarrow> if x = [] then ''No description provided.'' else x),
      schema = sch, toolFn = fn, permissions = perms \<rparr>"
  have "set (fst (registerTool d nm fn sch perms tools)) \<subseteq> insert (nm, ?entry) (set tools)"
    using set_update_subset [of nm ?entry tools] by (simp add: registerTool_def Let_def)
  with assms show ?thesis by auto
qed

lemma registerAll_invariant:
  "distinct (map fst tools) \<Longrightarrow> \<forall>(k, tool) \<in> set tools. name tool = k \<Longrightarrow>
   distinct (map fst (registerAll d calls tools)) \<and>
   (\<forall>(k, tool) \<in> set (registerAll d calls tools). name tool = k)"
proof (induction d calls tools rule: registerAll.induct)
  case (1 d tools)
  then show ?case by simp
next
  case (2 d nm fn sch perms calls tools)
  from 2(2) have "distinct (map fst (fst (registerTool d nm fn sch perms tools)))"
    by (rule registerTool_distinct)
  moreover from 2(3)
  have "\<forall>(k, tool) \<in> set (fst (registerTool d nm fn sch perms tools)). name tool = k"
    by (rule registerTool_named)
  ultimately show ?case using 2(1) by simp
qed

lemma same_name_same_tool:
  assumes "distinct (map fst tools)" and "\<forall>(k, tool) \<in> set tools. name tool = k"
      and "t \<in> snd ` set tools" and "t' \<in> snd ` set tools" and "name t = name t'"
  shows "t = t'"
proof -
  from assms(3) obtain k where k: "(k, t) \<in> set tools" by auto
  from assms(4) obtain k' where k': "(k', t') \<in> set tools" by auto
  from assms(2) k k' have "k = name t" "k' = name t'" by auto
  with assms(5) have "k = k'" by simp
  with assms(1) k k' show ?thesis by (meson eq_key_imp_eq_value)
qed

text \<open>
  C9. For every registry reached by registrations from the empty one and every list
  of caller permissions, \<open>getToolDefinitionsForAgent\<close> returns, in registration order,
  the projections of the tools whose permission list is empty or shares a permission
  with the caller; a registered tool is offered if and only if it is authorised in that
  sense. An entry is an \<open>AgentToolDefinition\<close>: name, description and schema of the
  tool and no other field, so neither the function nor the permission list.
\<close>

theorem getToolDefinitionsForAgent_capability_projection:
  fixes schema_description :: "'s \<Rightarrow> string option"
    and calls :: "(string \<times> ('p \<Rightarrow> js_error + 'r) \<times> 's \<times> string list) list"
    and currentUserPermissions :: "string list"
  defines "tools \<equiv> registerAll schema_description calls []"
  defines "offered \<equiv> getToolDefinitionsForAgent tools currentUserPermissions"
  shows "offered =
           map (\<lambda>tool. \<lparr> name = name tool, description = description tool,
                          schema = schema tool \<rparr>)
             (filter (\<lambda>tool. permissions tool = [] \<or>
                             (\<exists>p \<in> set (permissions tool). p \<in> set currentUserPermissions))
                (map snd tools)) \<and>
         (\<forall>tool \<in> snd ` set tools.
            \<lparr> name = name tool, description = description tool, schema = schema tool \<rparr>
              \<in> set offered \<longleftrightarrow>
            permissions tool = [] \<or>
            (\<exists>p \<in> set (permissions tool). p \<in> set currentUserPermissions))"
proof (intro conjI ballI)
  have auth: "isAuthorized currentUserPermissions =
     (\<lambda>tool :: ('s, 'p, 'r) ToolDefinition. permissions tool = [] \<or>
        (\<exists>p \<in> set (permissions tool). p \<in> set currentUserPermissions))"
    by (rule ext) (rule isAuthorized_iff)
  show shape: "offered =
           map (\<lambda>tool. \<lparr> name = name tool, description = description tool,
                          schema = schema tool \<rparr>)
             (filter (\<lambda>tool. permissions tool = [] \<or>
                             (\<exists>p \<in> set (permissions tool). p \<in> set currentUserPermissions))
                (map snd tools))"
    unfolding offered_def getToolDefinitionsForAgent_def authorizedLoop_filter auth by simp
  fix tool assume registered: "tool \<in> snd ` set tools"
  have inv: "distinct (map fst tools)" "\<forall>(k, t) \<in> set tools. name t = k"
    using registerAll_invariant [of "[]" schema_description calls] by (simp_all add: tools_def)
  show "\<lparr> name = name tool, description = description tool, schema = schema tool \<rparr>
              \<in> set offered \<longleftrightarrow>
            permissions tool = [] \<or>
            (\<exists>p \<in> set (permissions tool). p \<in> set currentUserPermissions)"
  proof
    assume "\<lparr> name = name tool, description = description tool, schema = schema tool \<rparr>
              \<in> set offered"
    then obtain other where other: "other \<in> snd ` set tools"
        "permissions other = [] \<or> (\<exists>p \<in> set (permissions other). p \<in> set currentUserPermissions)"
        "name other = name tool"
      unfolding shape by (fastforce simp add: image_iff)
    from same_name_same_tool [OF inv other(1) registered other(3)] other(2)
    show "permissions tool = [] \<or>
            (\<exists>p \<in> set (permissions tool). p \<in> set currentUserPermissions)" by simp
  next
    assume "permissions tool = [] \<or>
            (\<exists>p \<in> set (permissions tool). p \<in> set currentUserPermissions)"
    with registered show "\<lparr> name = name tool, description = description tool,
        schema = schema tool \<rparr> \<in> set offered"
      unfolding shape by auto
  qed
qed

theorem getToolDefinitionsForAgent_capability_projection_witness:
  "\<lparr> name = ''searchFlights'', description = ''Search for available flights'',
     schema = flightSearchSchema \<rparr>
     \<in> set (getToolDefinitionsForAgent
          (registerAll zod_description
             [(''searchFlights'', searchFlights, flightSearchSchema, []),
              (''cancelBooking'', cancelBooking, flightSearchSchema, [''admin'', ''support''])] [])
          [''customer'']) \<and>
   \<lparr> name = ''cancelBooking'', description = ''Search for available flights'',
     schema = flightSearchSchema \<rparr>
     \<notin> set (getToolDefinitionsForAgent
          (registerAll zod_description
             [(''searchFlights'', searchFlights, flightSearchSchema, []),
              (''cancelBooking'', cancelBooking, flightSearchSchema, [''admin'', ''support''])] [])
          [''customer'']) \<and>
   \<lparr> name = ''cancelBooking'', description = ''Search for available flights'',
     schema = flightSearchSchema \<rparr>
     \<in> set (getToolDefinitionsForAgent
          (registerAll zod_description
             [(''searchFlights'', searchFlights, flightSearchSchema, []),
              (''cancelBooking'', cancelBooking, flightSearchSchema, [''admin'', ''support''])] [])
          [''support''])"
proof -
  let ?calls = "[(''searchFlights'', searchFlights, flightSearchSchema, []),
              (''cancelBooking'', cancelBooking, flightSearchSchema, [''admin'', ''support''])]"
  let ?search = "\<lparr> name = ''searchFlights'', description = ''Search for available flights'',
     schema = flightSearchSchema, toolFn = searchFlights, permissions = [] \<rparr>"
  let ?cancel = "\<lparr> name = ''cancelBooking'', description = ''Search for available flights'',
     schema = flightSearchSchema, toolFn = cancelBooking,
     permissions = [''admin'', ''support''] \<rparr>"
  have built: "registerAll zod_description ?calls [] =
                 [(''searchFlights'', ?search), (''cancelBooking'', ?cancel)]"
    by (simp add: registerTool_def flightSearchSchema_def)
  have registered: "?search \<in> snd ` set (registerAll zod_description ?calls [])"
      "?cancel \<in> snd ` set (registerAll zod_description ?calls [])"
    unfolding built by simp_all
  note customer = getToolDefinitionsForAgent_capability_projection
    [of zod_description ?calls "[''customer'']", THEN conjunct2, rule_format]
  note support = getToolDefinitionsForAgent_capability_projection
    [of zod_description ?calls "[''support'']", THEN conjunct2, rule_format]
  from customer [OF registered(1)] customer [OF registered(2)] support [OF registered(2)]
  show ?thesis by simp
qed

lemma executeTool_not_found:
  "map_of tools nm = None \<Longrightarrow>
   executeTool safeParse tools nm params =
     (Inl (Error (''Tool \"'' @ nm @ ''\" not found.'')), [])"
  by (simp add: executeTool_def)

lemma executeTool_invalid_params:
  "map_of tools nm = Some tool \<Longrightarrow> safeParse (schema tool) params = Inl message \<Longrightarrow>
   executeTool safeParse tools nm params =
     (Inl (Error (''Invalid parameters for tool '' @ nm @ '': '' @ message)),
      [console_log (''Executing tool: '' @ nm @ '' with params:'') params,
       console_error (''Error executing tool \"'' @ nm @ ''\":'') (ZodError message)])"
  by (simp add: executeTool_def rethrow_def)

lemma executeTool_result:
  "map_of tools nm = Some tool \<Longrightarrow> safeParse (schema tool) params = Inr parsed \<Longrightarrow>
   toolFn tool params = Inr result \<Longrightarrow>
   executeTool safeParse tools nm params =
     (Inr result,
      [console_log (''Executing tool: '' @ nm @ '' with params:'') params,
       toolFn_called nm params])"
  by (simp add: executeTool_def)

lemma executeTool_failure:
  "map_of tools nm = Some tool \<Longrightarrow> safeParse (schema tool) params = Inr parsed \<Longrightarrow>
   toolFn tool params = Inl error \<Longrightarrow>
   executeTool safeParse tools nm params =
     (Inl (case error of
             ZodError message \<Rightarrow>
               Error (''Invalid parameters for tool '' @ nm @ '': '' @ message)
           | _ \<Rightarrow> error),
      [console_log (''Executing tool: '' @ nm @ '' with params:'') params,
       toolFn_called nm params,
       console_error (''Error executing tool \"'' @ nm @ ''\":'') error])"
  by (simp add: executeTool_def rethrow_def)

lemma full_query_valid: "zod_safeParse flightSearchSchema full_query = Inr full_query"
  by (simp add: zod_safeParse_def flightSearchSchema_def full_query_def List.map_filter_def)

text \<open>
  C8. \<open>executeTool\<close> fails with "not found" for an unregistered name
  (\<open>executeTool_not_found\<close>), fails with "Invalid parameters" without calling the
  function when the parameters do not validate (\<open>executeTool_invalid_params\<close>), and
  returns the function's result otherwise (\<open>executeTool_result\<close>). The function's own
  failure is thrown again only if it is no \<open>ZodError\<close> (\<open>executeTool_failure\<close>):
  the \<open>catch\<close> also covers the call of the function, so a tool that fails with a
  \<open>ZodError\<close> of its own, on parameters that are valid, is reported as
  "Invalid parameters". The run below shows it: the parameters validate, the function
  is called, and the caller sees the validation condition instead of the function's
  failure.
\<close>

theorem executeTool_relabels_failure_of_tool:
  "executeTool zod_safeParse
     (fst (registerTool zod_description ''searchFlights'' searchFlights_checked
             flightSearchSchema [] []))
     ''searchFlights'' full_query =
   (Inl (Error ''Invalid parameters for tool searchFlights: Invalid upstream response''),
    [console_log ''Executing tool: searchFlights with params:'' full_query,
     toolFn_called ''searchFlights'' full_query,
     console_error ''Error executing tool \"searchFlights\":''
       (ZodError ''Invalid upstream response'')]) \<and>
   success (zod_safeParse flightSearchSchema full_query) \<and>
   searchFlights_checked full_query = Inl (ZodError ''Invalid upstream response'')"
  by (simp add: executeTool_def registerTool_def rethrow_def full_query_valid success_def
      searchFlights_checked_def)

end
